theory Spec2Isabelle
  imports Main
begin

section \<open>The session manager of the template: AuthContext, fetch and ProtectedRoute\<close>

text \<open>
  The development embeds three source files: the fetch helper (\<open>getFetch\<close>, \<open>withAuth\<close>),
  the authentication provider (\<open>AuthProvider\<close> with \<open>login\<close>, \<open>logout\<close>, \<open>updateUser\<close>,
  \<open>verifyToken\<close>, \<open>refreshAccessToken\<close> and the initialisation effect) and the route
  guard (\<open>ProtectedRoute\<close>).

  JavaScript values are modelled as follows. A value of type \<open>string | null\<close> or
  \<open>string | undefined\<close> is a \<open>string option\<close>. The test \<open>if (x)\<close> on such a value is
  \<open>truthy x\<close>: the value is neither absent nor the empty string. \<open>localStorage\<close> is a
  finite map from keys to strings. The \<open>User\<close> object is a type parameter \<open>'u\<close>; the
  platform functions \<open>JSON.stringify\<close> and \<open>JSON.parse\<close> are passed in as a record.
\<close>

subsection \<open>JavaScript truthiness and the platform\<close>

definition truthy :: "string option \<Rightarrow> bool" where
  "truthy x = (case x of None \<Rightarrow> False | Some s \<Rightarrow> s \<noteq> [])"

text \<open>\<open>k || ""\<close> for an optional key.\<close>

definition or_empty :: "string option \<Rightarrow> string" where
  "or_empty k = (case k of None \<Rightarrow> [] | Some s \<Rightarrow> s)"

text \<open>
  \<open>k!\<close> used as the key of \<open>localStorage.setItem\<close>: the non-null assertion is erased at
  run time, and an undefined key is converted to the string \<open>undefined\<close>.
\<close>

definition key_of :: "string option \<Rightarrow> string" where
  "key_of k = (case k of None \<Rightarrow> ''undefined'' | Some s \<Rightarrow> s)"

text \<open>
  The result of \<open>JSON.parse\<close>: it throws a \<open>SyntaxError\<close>, or returns a value that the
  code uses as \<open>User | null\<close>.
\<close>

datatype 'u parsed = SyntaxError | Parsed "'u option"

record 'u JSON =
  stringify :: "'u \<Rightarrow> string"
  parse :: "string \<Rightarrow> 'u parsed"

subsection \<open>types.ts: ApiResponse and AuthConfig\<close>

text \<open>
  \<open>data\<close> is \<open>None\<close> for \<open>null\<close> and for every other falsy value: the session code only
  tests it for truthiness. The diagnostic \<open>error\<close> text of the response is read nowhere
  in the session code and is left out.
\<close>

record 'a ApiResponse =
  status :: nat
  data :: "'a option"
  success :: bool

record endpoints =
  verify :: string
  refresh :: "string option"

record storage =
  tokenKey :: string
  refreshTokenKey :: "string option"
  userKey :: "string option"

record AuthConfig =
  endpoints :: endpoints
  storage :: storage
  autoVerify :: bool

text \<open>\<open>Partial<AuthConfig>\<close>: each of the three top-level properties may be missing.\<close>

record PartialAuthConfig =
  endpoints_opt :: "endpoints option"
  storage_opt :: "storage option"
  autoVerify_opt :: "bool option"

subsection \<open>fetch.ts: getFetch and withAuth\<close>

text \<open>
  What the network does with one request: \<open>fetch\<close> rejects, or a response arrives with a
  status, a flag saying whether its \<open>Content-Type\<close> includes \<open>application/json\<close>, and a
  body. Reading the body with \<open>response.json()\<close> fails (\<open>InvalidJson\<close>) or yields
  \<open>null\<close>, another falsy value, or a truthy value that the caller reads at type \<open>'a\<close>.
\<close>

datatype 'a json_body = InvalidJson | JsonNull | JsonFalsy | JsonValue 'a

datatype 'a fetch_outcome = NetworkError | HttpReply nat bool "'a json_body"

text \<open>The request as sent; the URL is \<open>Config.Urls.API\<close> followed by \<open>route\<close>.\<close>

record request =
  http_method :: string
  route :: string
  headers :: "string \<rightharpoonup> string"

definition withAuth :: "string \<Rightarrow> (string \<rightharpoonup> string) \<Rightarrow> (string \<rightharpoonup> string)" where
  "withAuth tok hdrs = [''Authorization'' \<mapsto> ''Bearer '' @ tok] ++ hdrs"

text \<open>
  The whole body of \<open>getFetch\<close> is inside \<open>try\<close>, and the handler returns a value: every
  exception (a rejected \<open>fetch\<close>, a body that is not JSON, the property access
  \<open>responseData.message\<close> on \<open>null\<close> for a status outside 2xx) becomes the response
  with status 500 and \<open>success = False\<close>. The function returns the request together with
  the response.
\<close>

definition GET_request :: "string \<Rightarrow> (string \<rightharpoonup> string) \<Rightarrow> request" where
  "GET_request rt hdrs =
    \<lparr>http_method = ''GET'', route = rt,
     headers = [''Content-Type'' \<mapsto> ''application/json''] ++ hdrs\<rparr>"

definition getFetch ::
  "string \<Rightarrow> (string \<rightharpoonup> string) \<Rightarrow> 'a fetch_outcome \<Rightarrow> request \<times> 'a ApiResponse" where
  "getFetch rt hdrs outcome =
    (let caught = \<lparr>status = 500, data = None, success = False\<rparr>
     in (GET_request rt hdrs,
       (case outcome of
          NetworkError \<Rightarrow> caught
        | HttpReply st is_json body \<Rightarrow>
            (let isSuccess = (200 \<le> st \<and> st < 300) in
             if is_json then
               (case body of
                  InvalidJson \<Rightarrow> caught
                | JsonNull \<Rightarrow>
                    if isSuccess then \<lparr>status = st, data = None, success = True\<rparr> else caught
                | JsonFalsy \<Rightarrow> \<lparr>status = st, data = None, success = isSuccess\<rparr>
                | JsonValue v \<Rightarrow>
                    \<lparr>status = st, data = (if isSuccess then Some v else None),
                     success = isSuccess\<rparr>)
             else \<lparr>status = st, data = None, success = False\<rparr>))))"

subsection \<open>AuthContext.tsx: configuration\<close>

definition defaultAuthConfig :: AuthConfig where
  "defaultAuthConfig =
    \<lparr>endpoints = \<lparr>verify = ''/auth/me'', refresh = Some ''/auth/refresh''\<rparr>,
     storage = \<lparr>tokenKey = ''authToken'', refreshTokenKey = Some ''refreshToken'',
                userKey = Some ''user''\<rparr>,
     autoVerify = True\<rparr>"

text \<open>
  \<open>const config = { ...defaultAuthConfig, ...customConfig }\<close>: object spread copies the
  top-level properties of the custom configuration over those of the default one.
  Spreading \<open>undefined\<close> (no \<open>config\<close> prop) copies nothing.
\<close>

definition merge_config :: "PartialAuthConfig option \<Rightarrow> AuthConfig" where
  "merge_config customConfig =
    (case customConfig of
       None \<Rightarrow> defaultAuthConfig
     | Some c \<Rightarrow>
        \<lparr>endpoints = (case endpoints_opt c of None \<Rightarrow> endpoints defaultAuthConfig | Some e \<Rightarrow> e),
         storage = (case storage_opt c of None \<Rightarrow> storage defaultAuthConfig | Some s \<Rightarrow> s),
         autoVerify = (case autoVerify_opt c of None \<Rightarrow> autoVerify defaultAuthConfig | Some b \<Rightarrow> b)\<rparr>)"

subsection \<open>AuthContext.tsx: state\<close>

text \<open>
  The five \<open>useState\<close> cells of \<open>AuthProvider\<close>. A value of this record is also what one
  render of the component sees: the functions \<open>verifyToken\<close> and \<open>refreshAccessToken\<close>
  created by a render read \<open>token\<close> and \<open>refreshToken\<close> of that render, whatever the
  setters have stored since.
\<close>

record 'u render =
  token :: "string option"
  refreshToken :: "string option"
  user :: "'u option"
  loading :: bool
  isAuthenticated :: bool

text \<open>
  The state that the operations change: the \<open>useState\<close> cells as the setters leave them,
  \<open>localStorage\<close>, and the list of the requests sent so far.
\<close>

record 'u world = "'u render" +
  localStorage :: "string \<rightharpoonup> string"
  requests :: "request list"

definition current_render :: "'u world \<Rightarrow> 'u render" where
  "current_render w = render.truncate w"

definition getItem :: "string \<Rightarrow> 'u world \<Rightarrow> string option" where
  "getItem k w = localStorage w k"

definition setItem :: "string \<Rightarrow> string \<Rightarrow> 'u world \<Rightarrow> 'u world" where
  "setItem k v w = w\<lparr>localStorage := (localStorage w)(k \<mapsto> v)\<rparr>"

definition removeItem :: "string \<Rightarrow> 'u world \<Rightarrow> 'u world" where
  "removeItem k w = w\<lparr>localStorage := (localStorage w)(k := None)\<rparr>"

definition send :: "request \<Rightarrow> 'u world \<Rightarrow> 'u world" where
  "send req w = w\<lparr>requests := requests w @ [req]\<rparr>"

text \<open>The state at mount: the initial values of the \<open>useState\<close> cells.\<close>

definition mount :: "(string \<rightharpoonup> string) \<Rightarrow> 'u world" where
  "mount store =
    \<lparr>token = None, refreshToken = None, user = None, loading = True,
     isAuthenticated = False, localStorage = store, requests = []\<rparr>"

subsection \<open>AuthContext.tsx: login, logout, updateUser\<close>

text \<open>
  \<open>login\<close> reads nothing of the state. An optional argument is written only when it is
  truthy (\<open>the\<close> is applied under that test only).
\<close>

definition login ::
  "AuthConfig \<Rightarrow> 'u JSON \<Rightarrow> string \<Rightarrow> string option \<Rightarrow> 'u option \<Rightarrow> 'u world \<Rightarrow> 'u world" where
  "login config js newToken newRefreshToken newUser w =
    (let w1 = w\<lparr>token := Some newToken, isAuthenticated := True\<rparr>;
         w2 = setItem (tokenKey (storage config)) newToken w1;
         w3 = (if truthy newRefreshToken
               then setItem (key_of (refreshTokenKey (storage config))) (the newRefreshToken)
                      (w2\<lparr>refreshToken := newRefreshToken\<rparr>)
               else w2)
     in (case newUser of
           None \<Rightarrow> w3
         | Some u \<Rightarrow> setItem (key_of (userKey (storage config))) (stringify js u)
                      (w3\<lparr>user := Some u\<rparr>)))"

definition logout :: "AuthConfig \<Rightarrow> 'u world \<Rightarrow> 'u world" where
  "logout config w =
    (let w1 = w\<lparr>token := None, refreshToken := None, user := None, isAuthenticated := False\<rparr>;
         w2 = removeItem (tokenKey (storage config)) w1;
         w3 = (if truthy (refreshTokenKey (storage config))
               then removeItem (the (refreshTokenKey (storage config))) w2 else w2)
     in if truthy (userKey (storage config))
        then removeItem (the (userKey (storage config))) w3 else w3)"

definition updateUser :: "AuthConfig \<Rightarrow> 'u JSON \<Rightarrow> 'u \<Rightarrow> 'u world \<Rightarrow> 'u world" where
  "updateUser config js updatedUser w =
    (let w1 = w\<lparr>user := Some updatedUser\<rparr>
     in if truthy (userKey (storage config))
        then setItem (the (userKey (storage config))) (stringify js updatedUser) w1 else w1)"

subsection \<open>AuthContext.tsx: refreshAccessToken and verifyToken\<close>

text \<open>The payload of the refresh endpoint: \<open>{ token, refreshToken?, user? }\<close>.\<close>

record 'u NewCredentials =
  newToken :: string
  newRefreshToken :: "string option"
  newUser :: "'u option"

text \<open>
  Both functions take the render \<open>r\<close> that created them, the answer of the network to
  the request they may send, and the state \<open>w\<close> at the call. They return the boolean of
  the source and the new state. The \<open>catch\<close> blocks of both functions have no branch
  here: \<open>getFetch\<close> returns a value on every outcome, and the map that stands for
  \<open>localStorage\<close> and \<open>stringify\<close> are total.
\<close>

definition refreshAccessToken ::
  "AuthConfig \<Rightarrow> 'u JSON \<Rightarrow> 'u render \<Rightarrow> 'u NewCredentials fetch_outcome \<Rightarrow> 'u world
    \<Rightarrow> bool \<times> 'u world" where
  "refreshAccessToken config js r refresh_outcome w =
    (if \<not> truthy (refreshToken r) \<or> \<not> truthy (refresh (endpoints config)) then (False, w)
     else
       (let (req, response) =
              getFetch (the (refresh (endpoints config))) (withAuth (the (refreshToken r)) Map.empty)
                refresh_outcome;
            w0 = send req w
        in (case data response of
              Some d \<Rightarrow>
                if success response then
                  (let w1 = setItem (tokenKey (storage config)) (newToken d)
                              (w0\<lparr>token := Some (newToken d)\<rparr>);
                       w2 = (if truthy (newRefreshToken d)
                             then setItem (key_of (refreshTokenKey (storage config)))
                                    (the (newRefreshToken d))
                                    (w1\<lparr>refreshToken := newRefreshToken d\<rparr>)
                             else w1);
                       w3 = (case newUser d of
                               None \<Rightarrow> w2
                             | Some u \<Rightarrow> setItem (key_of (userKey (storage config))) (stringify js u)
                                          (w2\<lparr>user := Some u\<rparr>))
                   in (True, w3\<lparr>isAuthenticated := True\<rparr>))
                else (False, logout config w0)
            | None \<Rightarrow> (False, logout config w0))))"

text \<open>\<open>tokenToVerify || token\<close>, with the \<open>token\<close> of the render.\<close>

definition currentToken :: "'u render \<Rightarrow> string option \<Rightarrow> string option" where
  "currentToken r tokenToVerify = (if truthy tokenToVerify then tokenToVerify else token r)"

definition verifyToken ::
  "AuthConfig \<Rightarrow> 'u JSON \<Rightarrow> 'u render \<Rightarrow> string option \<Rightarrow> 'u fetch_outcome
    \<Rightarrow> 'u NewCredentials fetch_outcome \<Rightarrow> 'u world \<Rightarrow> bool \<times> 'u world" where
  "verifyToken config js r tokenToVerify verify_outcome refresh_outcome w =
    (if \<not> truthy (currentToken r tokenToVerify) then (False, w\<lparr>loading := False\<rparr>)
     else
       (let (req, response) =
              getFetch (verify (endpoints config))
                (withAuth (the (currentToken r tokenToVerify)) Map.empty) verify_outcome;
            w0 = send req w
        in if success response \<and> data response \<noteq> None then
             (let w1 = w0\<lparr>isAuthenticated := True, user := data response, loading := False\<rparr>
              in (True,
                  if truthy (userKey (storage config))
                  then setItem (the (userKey (storage config)))
                         (stringify js (the (data response))) w1
                  else w1))
           else
             (let (refreshSuccess, w1) =
                    (if truthy (refreshToken r) \<and> truthy (refresh (endpoints config))
                     then refreshAccessToken config js r refresh_outcome w0
                     else (False, w0))
              in if refreshSuccess then (True, w1)
                 else (False, logout config (w1\<lparr>isAuthenticated := False, loading := False\<rparr>)))))"

subsection \<open>AuthContext.tsx: the initialisation effect\<close>

text \<open>
  The effect has no dependencies: it runs once, after the first render, and calls the
  \<open>verifyToken\<close> of that render. The cells of the first render hold their initial values,
  so this \<open>verifyToken\<close> reads \<open>refreshToken = null\<close> even after
  \<open>setRefreshToken(savedRefreshToken)\<close>. The setters act on the state.
\<close>

definition initialize ::
  "AuthConfig \<Rightarrow> 'u JSON \<Rightarrow> 'u fetch_outcome \<Rightarrow> 'u NewCredentials fetch_outcome
    \<Rightarrow> (string \<rightharpoonup> string) \<Rightarrow> 'u world" where
  "initialize config js verify_outcome refresh_outcome store =
    (let w = mount store;
         first_render = current_render w;
         savedToken = getItem (tokenKey (storage config)) w;
         savedRefreshToken = getItem (or_empty (refreshTokenKey (storage config))) w;
         savedUser = getItem (or_empty (userKey (storage config))) w
     in if truthy savedToken then
          (let w1 = w\<lparr>token := savedToken\<rparr>;
               w2 = (if truthy savedRefreshToken then w1\<lparr>refreshToken := savedRefreshToken\<rparr>
                     else w1);
               w3 = (if truthy savedUser then
                       (case parse js (the savedUser) of
                          SyntaxError \<Rightarrow> w2
                        | Parsed u \<Rightarrow> w2\<lparr>user := u\<rparr>)
                     else w2)
           in if autoVerify config
              then snd (verifyToken config js first_render savedToken verify_outcome
                          refresh_outcome w3)
              else w3\<lparr>isAuthenticated := True, loading := False\<rparr>)
        else w\<lparr>loading := False\<rparr>)"

subsection \<open>protectedRoute.tsx\<close>

datatype element = Spinner | Navigate string bool | Outlet

text \<open>
  What \<open>ProtectedRoute\<close> returns for the context value \<open>r\<close> of the render and its own
  \<open>isChecking\<close> cell. \<open>Navigate to replace\<close> is \<open><Navigate to=... replace />\<close>.
\<close>

definition ProtectedRoute :: "'u render \<Rightarrow> bool \<Rightarrow> element" where
  "ProtectedRoute r isChecking =
    (if loading r \<or> isChecking then Spinner
     else if \<not> truthy (token r) \<or> \<not> isAuthenticated r then Navigate ''/'' True
     else Outlet)"

text \<open>
  The effect of \<open>ProtectedRoute\<close> on the pair of the state and \<open>isChecking\<close>: when the
  render is not loading, \<open>checkAuth\<close> verifies the token of the render if there is one,
  then clears \<open>isChecking\<close>.
\<close>

definition checkAuth ::
  "AuthConfig \<Rightarrow> 'u JSON \<Rightarrow> 'u render \<Rightarrow> 'u fetch_outcome \<Rightarrow> 'u NewCredentials fetch_outcome
    \<Rightarrow> 'u world \<times> bool \<Rightarrow> 'u world \<times> bool" where
  "checkAuth config js r verify_outcome refresh_outcome st =
    (if \<not> loading r then
       ((if truthy (token r)
         then snd (verifyToken config js r (token r) verify_outcome refresh_outcome (fst st))
         else fst st), False)
     else st)"

subsection \<open>Fixtures and notions used in the statements\<close>

text \<open>
  A codec for concrete runs: the user is represented by its JSON text, so that
  \<open>stringify\<close> is the identity and \<open>parse\<close> always succeeds.
\<close>

definition text_JSON :: "string JSON" where
  "text_JSON = \<lparr>stringify = (\<lambda>u. u), parse = (\<lambda>s. Parsed (Some s))\<rparr>"

text \<open>
  A session for concrete runs: the default configuration, an empty store at start, then
  \<open>login\<close> with the token \<open>abc\<close> and the given refresh token.
\<close>

definition signed_in :: "string option \<Rightarrow> string world" where
  "signed_in rt =
    login defaultAuthConfig text_JSON ''abc'' rt None
      (initialize defaultAuthConfig text_JSON NetworkError NetworkError Map.empty)"

text \<open>The default configuration with \<open>autoVerify: false\<close>.\<close>

definition no_autoVerify :: AuthConfig where
  "no_autoVerify =
    merge_config (Some \<lparr>endpoints_opt = None, storage_opt = None, autoVerify_opt = Some False\<rparr>)"

text \<open>Two answers of the server: a 401, and a 200 of the refresh endpoint with a new token.\<close>

definition unauthorized :: "string fetch_outcome" where
  "unauthorized = HttpReply 401 True (JsonValue ''{}'')"

definition renewed :: "string NewCredentials fetch_outcome" where
  "renewed =
    HttpReply 200 True (JsonValue \<lparr>newToken = ''new'', newRefreshToken = None, newUser = None\<rparr>)"

text \<open>
  A store that holds a session, and the state in which the initialisation effect calls
  \<open>verifyToken(savedToken)\<close> over it with the default configuration: the setters have
  stored the saved token and the saved refresh token, and \<open>loading\<close> is still true.
\<close>

definition stored_session :: "string \<rightharpoonup> string" where
  "stored_session = [''authToken'' \<mapsto> ''abc'', ''refreshToken'' \<mapsto> ''r1'']"

definition restoring :: "string world" where
  "restoring =
    \<lparr>token = Some ''abc'', refreshToken = Some ''r1'', user = None, loading = True,
     isAuthenticated = False, localStorage = stored_session, requests = []\<rparr>"

text \<open>
  The configuration of the scenarios of the specification: a verify endpoint, a token
  key \<open>tok\<close>, \<open>autoVerify\<close>, and nothing else.
\<close>

definition scenario_config :: AuthConfig where
  "scenario_config =
    merge_config (Some
      \<lparr>endpoints_opt = Some \<lparr>verify = ''/auth/me'', refresh = None\<rparr>,
       storage_opt = Some \<lparr>tokenKey = ''tok'', refreshTokenKey = None, userKey = None\<rparr>,
       autoVerify_opt = Some True\<rparr>)"

text \<open>The response that \<open>getFetch\<close> builds; it does not depend on the request.\<close>

definition response_of :: "'a fetch_outcome \<Rightarrow> 'a ApiResponse" where
  "response_of outcome = snd (getFetch [] Map.empty outcome)"

text \<open>The test \<open>response.success && response.data\<close> of both callers.\<close>

definition accepted :: "'a fetch_outcome \<Rightarrow> bool" where
  "accepted outcome = (success (response_of outcome) \<and> data (response_of outcome) \<noteq> None)"

text \<open>The requests that \<open>verifyToken\<close> and \<open>refreshAccessToken\<close> send.\<close>

definition verify_request :: "AuthConfig \<Rightarrow> string \<Rightarrow> request" where
  "verify_request config tok = GET_request (verify (endpoints config)) (withAuth tok Map.empty)"

definition refresh_request :: "AuthConfig \<Rightarrow> string \<Rightarrow> request" where
  "refresh_request config rtok =
    GET_request (the (refresh (endpoints config))) (withAuth rtok Map.empty)"

text \<open>
  The keys that \<open>logout\<close> removes: the token key, and each of the two optional keys
  that is configured with a non-empty name.
\<close>

definition configured_keys :: "AuthConfig \<Rightarrow> string set" where
  "configured_keys config =
    {tokenKey (storage config)}
    \<union> (if truthy (refreshTokenKey (storage config))
       then {the (refreshTokenKey (storage config))} else {})
    \<union> (if truthy (userKey (storage config)) then {the (userKey (storage config))} else {})"

text \<open>
  The states of a session: the one that the initialisation leaves, and every state that
  an operation of the context produces from one of them. \<open>verifyToken\<close> and
  \<open>refreshAccessToken\<close> may be those of any render, also of an old one.
\<close>

inductive reachable :: "AuthConfig \<Rightarrow> 'u JSON \<Rightarrow> 'u world \<Rightarrow> bool"
  for config :: AuthConfig and js :: "'u JSON" where
  reach_initialize: "reachable config js (initialize config js vo ro store)"
| reach_login: "reachable config js w \<Longrightarrow> reachable config js (login config js t rt u w)"
| reach_logout: "reachable config js w \<Longrightarrow> reachable config js (logout config w)"
| reach_updateUser: "reachable config js w \<Longrightarrow> reachable config js (updateUser config js x w)"
| reach_refresh:
    "reachable config js w \<Longrightarrow> reachable config js (snd (refreshAccessToken config js r ro w))"
| reach_verify:
    "reachable config js w \<Longrightarrow> reachable config js (snd (verifyToken config js r arg vo ro w))"

text \<open>The invariant of the specification: an authenticated state holds a credential.\<close>

definition credential_held :: "'u world \<Rightarrow> bool" where
  "credential_held w = (isAuthenticated w \<longrightarrow> token w \<noteq> None)"

section \<open>Properties\<close>

subsection \<open>Truthiness and getFetch\<close>

lemma truthy_simps [simp]: "\<not> truthy None" "truthy (Some s) \<longleftrightarrow> s \<noteq> []"
  by (simp_all add: truthy_def)

lemma truthy_Some: "truthy x \<Longrightarrow> \<exists>s. x = Some s \<and> s \<noteq> []"
  by (cases x) simp_all

lemma getFetch_pair: "getFetch rt hdrs outcome = (GET_request rt hdrs, response_of outcome)"
  by (simp add: getFetch_def response_of_def Let_def)

text \<open>
  The callers accept exactly one kind of outcome: a 2xx response whose body is JSON and
  truthy. Every failure of the transport or of the parser is rejected like a 401.
\<close>

lemma accepted_iff:
  "accepted outcome \<longleftrightarrow>
    (\<exists>st v. outcome = HttpReply st True (JsonValue v) \<and> 200 \<le> st \<and> st < 300)"
  by (cases outcome)
     (auto simp: accepted_def response_of_def getFetch_def Let_def split: json_body.splits)

lemma accepted_data:
  "200 \<le> st \<Longrightarrow> st < 300 \<Longrightarrow>
    success (response_of (HttpReply st True (JsonValue v))) \<and>
    data (response_of (HttpReply st True (JsonValue v))) = Some v"
  by (simp add: response_of_def getFetch_def Let_def)

lemma getFetch_failures:
  "response_of NetworkError = \<lparr>status = 500, data = None, success = False\<rparr>"
  "response_of (HttpReply st True InvalidJson) = \<lparr>status = 500, data = None, success = False\<rparr>"
  "response_of (HttpReply st False body) = \<lparr>status = st, data = None, success = False\<rparr>"
  by (simp_all add: response_of_def getFetch_def Let_def)

subsection \<open>The state after each operation\<close>

lemma current_render_simps [simp]:
  "token (current_render w) = token w" "refreshToken (current_render w) = refreshToken w"
  "user (current_render w) = user w" "loading (current_render w) = loading w"
  "isAuthenticated (current_render w) = isAuthenticated w"
  by (simp_all add: current_render_def render.truncate_def)

lemma logout_state:
  "logout config w =
    w\<lparr>token := None, refreshToken := None, user := None, isAuthenticated := False,
      localStorage := localStorage w |` (- configured_keys config)\<rparr>"
  by (auto simp: logout_def removeItem_def configured_keys_def Let_def restrict_map_def fun_eq_iff
      intro!: world.equality)

lemma refreshAccessToken_unconfigured:
  "\<not> truthy (refreshToken r) \<or> \<not> truthy (refresh (endpoints config)) \<Longrightarrow>
    refreshAccessToken config js r ro w = (False, w)"
  by (auto simp: refreshAccessToken_def)

lemma refreshAccessToken_rejected:
  "truthy (refreshToken r) \<Longrightarrow> truthy (refresh (endpoints config)) \<Longrightarrow> \<not> accepted ro \<Longrightarrow>
    refreshAccessToken config js r ro w =
      (False, logout config (send (refresh_request config (the (refreshToken r))) w))"
  by (auto simp: refreshAccessToken_def getFetch_pair accepted_def refresh_request_def Let_def
      split: option.splits)

lemma refreshAccessToken_accepted:
  "truthy (refreshToken r) \<Longrightarrow> truthy (refresh (endpoints config)) \<Longrightarrow>
   ro = HttpReply st True (JsonValue d) \<Longrightarrow> 200 \<le> st \<Longrightarrow> st < 300 \<Longrightarrow>
    refreshAccessToken config js r ro w =
      (True,
       (let w0 = send (refresh_request config (the (refreshToken r))) w;
            w1 = setItem (tokenKey (storage config)) (newToken d) (w0\<lparr>token := Some (newToken d)\<rparr>);
            w2 = (if truthy (newRefreshToken d)
                  then setItem (key_of (refreshTokenKey (storage config))) (the (newRefreshToken d))
                         (w1\<lparr>refreshToken := newRefreshToken d\<rparr>)
                  else w1);
            w3 = (case newUser d of
                    None \<Rightarrow> w2
                  | Some u \<Rightarrow> setItem (key_of (userKey (storage config))) (stringify js u)
                               (w2\<lparr>user := Some u\<rparr>))
        in w3\<lparr>isAuthenticated := True\<rparr>))"
  by (simp add: refreshAccessToken_def getFetch_pair accepted_data refresh_request_def Let_def)

lemma refresh_fst:
  "fst (refreshAccessToken config js r ro w) \<longleftrightarrow>
    truthy (refreshToken r) \<and> truthy (refresh (endpoints config)) \<and> accepted ro"
  by (auto simp: refreshAccessToken_def getFetch_pair accepted_def Let_def split: option.splits)

lemma refresh_loading: "loading (snd (refreshAccessToken config js r ro w)) = loading w"
  by (auto simp: refreshAccessToken_def getFetch_pair logout_state setItem_def send_def Let_def
      split: option.splits)

lemma refresh_success_state:
  "fst (refreshAccessToken config js r ro w) \<Longrightarrow>
    isAuthenticated (snd (refreshAccessToken config js r ro w)) \<and>
    token (snd (refreshAccessToken config js r ro w)) \<noteq> None"
  by (auto simp: refreshAccessToken_def getFetch_pair setItem_def Let_def
      split: option.splits if_splits)

lemma refresh_accepted_state:
  "truthy (refreshToken r) \<Longrightarrow> truthy (refresh (endpoints config)) \<Longrightarrow> accepted ro \<Longrightarrow>
    requests (snd (refreshAccessToken config js r ro w)) =
      requests w @ [refresh_request config (the (refreshToken r))]
    \<and> token (snd (refreshAccessToken config js r ro w)) =
      Some (newToken (the (data (response_of ro))))
    \<and> isAuthenticated (snd (refreshAccessToken config js r ro w))"
  by (auto simp: refreshAccessToken_def getFetch_pair accepted_def refresh_request_def
      setItem_def send_def Let_def split: option.splits)

text \<open>The four ways through \<open>verifyToken\<close>.\<close>

lemma verifyToken_no_token:
  "\<not> truthy (currentToken r arg) \<Longrightarrow>
    verifyToken config js r arg vo ro w = (False, w\<lparr>loading := False\<rparr>)"
  by (simp add: verifyToken_def)

lemma verifyToken_accepted:
  "truthy (currentToken r arg) \<Longrightarrow> accepted vo \<Longrightarrow>
    verifyToken config js r arg vo ro w =
      (True,
       (let w1 = (send (verify_request config (the (currentToken r arg))) w)
                   \<lparr>isAuthenticated := True, user := data (response_of vo), loading := False\<rparr>
        in if truthy (userKey (storage config))
           then setItem (the (userKey (storage config)))
                  (stringify js (the (data (response_of vo)))) w1
           else w1))"
  by (simp add: verifyToken_def getFetch_pair accepted_def verify_request_def Let_def)

lemma verifyToken_rejected_no_refresh:
  "truthy (currentToken r arg) \<Longrightarrow> \<not> accepted vo \<Longrightarrow>
   \<not> truthy (refreshToken r) \<or> \<not> truthy (refresh (endpoints config)) \<Longrightarrow>
    verifyToken config js r arg vo ro w =
      (False, logout config ((send (verify_request config (the (currentToken r arg))) w)
                \<lparr>isAuthenticated := False, loading := False\<rparr>))"
  by (auto simp: verifyToken_def getFetch_pair accepted_def verify_request_def Let_def)

lemma verifyToken_rejected_refresh:
  "truthy (currentToken r arg) \<Longrightarrow> \<not> accepted vo \<Longrightarrow>
   truthy (refreshToken r) \<Longrightarrow> truthy (refresh (endpoints config)) \<Longrightarrow>
    verifyToken config js r arg vo ro w =
      (if fst (refreshAccessToken config js r ro
                 (send (verify_request config (the (currentToken r arg))) w))
       then (True, snd (refreshAccessToken config js r ro
                 (send (verify_request config (the (currentToken r arg))) w)))
       else (False, logout config
              ((snd (refreshAccessToken config js r ro
                  (send (verify_request config (the (currentToken r arg))) w)))
                \<lparr>isAuthenticated := False, loading := False\<rparr>)))"
  by (auto simp: verifyToken_def getFetch_pair accepted_def verify_request_def Let_def
      split: prod.splits)

lemma initialize_no_token:
  "\<not> truthy (store (tokenKey (storage config))) \<Longrightarrow>
    initialize config js vo ro store = (mount store)\<lparr>loading := False\<rparr>"
  by (simp add: initialize_def getItem_def mount_def Let_def)

text \<open>
  With \<open>autoVerify\<close>, a stored token and a rejected verification, the initialisation ends
  logged out after the single verify request, whatever the store held as refresh token
  and whatever the refresh endpoint would answer.
\<close>

lemma initialize_rejected:
  assumes "truthy (store (tokenKey (storage config)))" and "autoVerify config"
    and "\<not> accepted vo"
  shows "initialize config js vo ro store =
    \<lparr>token = None, refreshToken = None, user = None, loading = False, isAuthenticated = False,
     localStorage = store |` (- configured_keys config),
     requests = [verify_request config (the (store (tokenKey (storage config))))]\<rparr>"
  using assms
  by (simp add: initialize_def getItem_def Let_def mount_def verifyToken_rejected_no_refresh
      currentToken_def logout_state send_def split: parsed.splits)

subsection \<open>The loading flag\<close>

text \<open>
  \<open>verifyToken\<close> leaves \<open>loading\<close> true in one case only: it was true, the verification
  was rejected, and the refresh recovered the session. That branch returns before
  \<open>setLoading(false)\<close>.
\<close>

lemma loading_after_verify:
  "loading (snd (verifyToken config js r arg vo ro w)) \<longleftrightarrow>
    truthy (currentToken r arg) \<and> \<not> accepted vo \<and> truthy (refreshToken r)
    \<and> truthy (refresh (endpoints config)) \<and> accepted ro \<and> loading w"
proof (cases "truthy (currentToken r arg)")
  case False
  then show ?thesis by (simp add: verifyToken_no_token)
next
  case cur: True
  show ?thesis
  proof (cases "accepted vo")
    case True
    with cur show ?thesis by (simp add: verifyToken_accepted setItem_def Let_def)
  next
    case rej: False
    show ?thesis
    proof (cases "truthy (refreshToken r) \<and> truthy (refresh (endpoints config))")
      case True
      with cur rej show ?thesis
        by (simp add: verifyToken_rejected_refresh refresh_fst refresh_loading logout_state send_def)
    next
      case False
      with cur rej show ?thesis
        by (auto simp: verifyToken_rejected_no_refresh logout_state)
    qed
  qed
qed

text \<open>No operation sets \<open>loading\<close>, and the initialisation always clears it.\<close>

lemma loading_never_set:
  "loading (login config js t rt u w) = loading w"
  "loading (logout config w) = loading w"
  "loading (updateUser config js x w) = loading w"
  "loading (snd (refreshAccessToken config js r ro w)) = loading w"
  "\<not> loading w \<Longrightarrow> \<not> loading (snd (verifyToken config js r arg vo ro w))"
  by (cases u)
     (simp_all add: login_def logout_state updateUser_def setItem_def Let_def refresh_loading
       loading_after_verify)

lemma initialize_settles: "\<not> loading (initialize config js vo ro store)"
  by (simp add: initialize_def getItem_def Let_def loading_after_verify mount_def)

text \<open>Hence \<open>loading\<close> is false in every state of a session.\<close>

lemma reachable_settled: "reachable config js w \<Longrightarrow> \<not> loading w"
  by (induction rule: reachable.induct) (simp_all add: initialize_settles loading_never_set)

text \<open>The effect of the guard runs \<open>checkAuth\<close> when its render is not loading; it ends
  with \<open>isChecking\<close> false and does not set \<open>loading\<close>.\<close>

lemma checkAuth_settles:
  "\<not> loading r \<Longrightarrow> \<not> snd (checkAuth config js r vo ro st)"
  "\<not> loading (fst st) \<Longrightarrow> \<not> loading (fst (checkAuth config js r vo ro st))"
  by (simp_all add: checkAuth_def loading_never_set)

subsection \<open>The credential invariant, operation by operation\<close>

lemma credential_held_token: "token w \<noteq> None \<Longrightarrow> credential_held w"
  by (simp add: credential_held_def)

lemma credential_held_logout: "credential_held (logout config w)"
  by (simp add: credential_held_def logout_state)

lemma credential_held_login: "credential_held (login config js t rt u w)"
  by (cases u) (simp_all add: credential_held_def login_def setItem_def Let_def)

lemma credential_held_updateUser:
  "credential_held w \<Longrightarrow> credential_held (updateUser config js x w)"
  by (simp add: credential_held_def updateUser_def setItem_def Let_def)

lemma credential_held_refresh:
  "credential_held w \<Longrightarrow> credential_held (snd (refreshAccessToken config js r ro w))"
proof (cases "fst (refreshAccessToken config js r ro w)")
  case True
  then show ?thesis by (simp add: credential_held_def refresh_success_state)
next
  case False
  assume held: "credential_held w"
  show ?thesis
  proof (cases "truthy (refreshToken r) \<and> truthy (refresh (endpoints config))")
    case True
    with False have "\<not> accepted ro" by (simp add: refresh_fst)
    with True show ?thesis by (simp add: refreshAccessToken_rejected credential_held_logout)
  next
    case False
    with held show ?thesis by (auto simp: refreshAccessToken_unconfigured)
  qed
qed

lemma credential_held_verify:
  "token w \<noteq> None \<Longrightarrow> credential_held (snd (verifyToken config js r arg vo ro w))"
proof (cases "truthy (currentToken r arg)")
  case False
  assume "token w \<noteq> None"
  with False show ?thesis by (simp add: verifyToken_no_token credential_held_def)
next
  case cur: True
  assume tok: "token w \<noteq> None"
  show ?thesis
  proof (cases "accepted vo")
    case True
    with cur tok show ?thesis
      by (simp add: verifyToken_accepted credential_held_def setItem_def send_def Let_def)
  next
    case rej: False
    show ?thesis
    proof (cases "truthy (refreshToken r) \<and> truthy (refresh (endpoints config))")
      case True
      with cur rej show ?thesis
        by (simp add: verifyToken_rejected_refresh credential_held_logout)
           (simp add: credential_held_def refresh_success_state)
    next
      case False
      with cur rej show ?thesis
        by (simp add: verifyToken_rejected_no_refresh credential_held_logout)
    qed
  qed
qed

lemma credential_held_verify_current:
  "credential_held w \<Longrightarrow>
    credential_held (snd (verifyToken config js (current_render w) None vo ro w))"
proof (cases "token w")
  case None
  assume "credential_held w"
  with None show ?thesis
    by (simp add: verifyToken_no_token currentToken_def credential_held_def)
next
  case (Some a)
  then show ?thesis by (simp add: credential_held_verify)
qed

lemma credential_held_initialize: "credential_held (initialize config js vo ro store)"
proof (cases "truthy (store (tokenKey (storage config)))")
  case False
  then show ?thesis by (simp add: initialize_no_token credential_held_def mount_def)
next
  case True
  then obtain s where "store (tokenKey (storage config)) = Some s" by (auto dest: truthy_Some)
  then show ?thesis
    using True
    apply (simp add: initialize_def getItem_def Let_def mount_def del: split_paired_All)
    apply (intro conjI impI;
        (rule credential_held_verify | rule credential_held_token); simp split: parsed.splits)
    done
qed

subsection \<open>The fixtures\<close>

lemma signed_in_state:
  "signed_in None =
    \<lparr>token = Some ''abc'', refreshToken = None, user = None, loading = False,
     isAuthenticated = True, localStorage = [''authToken'' \<mapsto> ''abc''], requests = []\<rparr>"
  "signed_in (Some ''r1'') =
    \<lparr>token = Some ''abc'', refreshToken = Some ''r1'', user = None, loading = False,
     isAuthenticated = True,
     localStorage = [''authToken'' \<mapsto> ''abc'', ''refreshToken'' \<mapsto> ''r1''], requests = []\<rparr>"
  by (simp_all add: signed_in_def initialize_no_token login_def setItem_def mount_def Let_def
      key_of_def defaultAuthConfig_def)

lemma fixture_outcomes:
  "\<not> accepted unauthorized" "accepted renewed"
  "data (response_of renewed) =
    Some \<lparr>newToken = ''new'', newRefreshToken = None, newUser = None\<rparr>"
  "\<not> accepted (NetworkError :: 'a fetch_outcome)"
  by (simp_all add: unauthorized_def renewed_def accepted_iff accepted_data)

lemma default_keys:
  "tokenKey (storage defaultAuthConfig) = ''authToken''"
  "refreshTokenKey (storage defaultAuthConfig) = Some ''refreshToken''"
  "userKey (storage defaultAuthConfig) = Some ''user''"
  "refresh (endpoints defaultAuthConfig) = Some ''/auth/refresh''"
  "storage no_autoVerify = storage defaultAuthConfig"
  "endpoints no_autoVerify = endpoints defaultAuthConfig"
  "\<not> autoVerify no_autoVerify"
  by (simp_all add: defaultAuthConfig_def no_autoVerify_def merge_config_def)

text \<open>
  Over \<open>stored_session\<close>, the initialisation is the \<open>verifyToken\<close> of the first render,
  called with the saved token in the state \<open>restoring\<close>. The first render holds no
  credential, the state holds both.
\<close>

lemma initialize_stored_session:
  "initialize defaultAuthConfig text_JSON vo ro stored_session =
    snd (verifyToken defaultAuthConfig text_JSON (current_render (mount stored_session))
          (Some ''abc'') vo ro restoring)"
  by (simp add: initialize_def getItem_def default_keys or_empty_def stored_session_def
      restoring_def mount_def defaultAuthConfig_def Let_def)

lemma first_render_call:
  "truthy (currentToken (current_render (mount stored_session :: string world)) (Some ''abc''))"
  "\<not> truthy (refreshToken (current_render (mount stored_session :: string world)))"
  "the (currentToken (current_render (mount stored_session :: string world)) (Some ''abc''))
    = ''abc''"
  by (simp_all add: currentToken_def mount_def)

lemma restoring_state:
  "token restoring = Some ''abc''" "refreshToken restoring = Some ''r1''"
  "requests restoring = []" "loading restoring"
  by (simp_all add: restoring_def)

subsection \<open>The two scenarios of the specification\<close>

text \<open>
  The store holds \<open>tok = abc\<close>. If the verify endpoint accepts the token and returns a
  user, the initialisation ends authenticated with that user and \<open>loading\<close> false. If it
  answers 401, the initialisation ends logged out and the key \<open>tok\<close> is removed.
\<close>

lemma scenario_keys:
  "tokenKey (storage scenario_config) = ''tok''"
  "refreshTokenKey (storage scenario_config) = None"
  "userKey (storage scenario_config) = None"
  "verify (endpoints scenario_config) = ''/auth/me''"
  "refresh (endpoints scenario_config) = None"
  "autoVerify scenario_config"
  by (simp_all add: scenario_config_def merge_config_def)

lemma scenario_verified:
  "initialize scenario_config text_JSON (HttpReply 200 True (JsonValue ''id=1,email=a@b.com''))
      ro [''tok'' \<mapsto> ''abc'']
    = \<lparr>token = Some ''abc'', refreshToken = None, user = Some ''id=1,email=a@b.com'',
       loading = False, isAuthenticated = True, localStorage = [''tok'' \<mapsto> ''abc''],
       requests = [verify_request scenario_config ''abc'']\<rparr>"
proof -
  have "accepted (HttpReply 200 True (JsonValue ''id=1,email=a@b.com'') :: string fetch_outcome)"
    by (simp add: accepted_iff)
  then show ?thesis
    by (simp add: initialize_def getItem_def mount_def Let_def scenario_keys or_empty_def
        verifyToken_accepted currentToken_def accepted_data send_def)
qed

lemma scenario_rejected:
  "initialize scenario_config text_JSON unauthorized ro [''tok'' \<mapsto> ''abc'']
    = \<lparr>token = None, refreshToken = None, user = None, loading = False,
       isAuthenticated = False, localStorage = Map.empty,
       requests = [verify_request scenario_config ''abc'']\<rparr>"
proof -
  have "truthy ([''tok'' \<mapsto> ''abc''] (tokenKey (storage scenario_config)))"
    by (simp add: scenario_keys)
  then show ?thesis
    by (simp add: initialize_rejected fixture_outcomes scenario_keys)
       (auto simp: configured_keys_def scenario_keys restrict_map_def fun_eq_iff)
qed

section \<open>The claims\<close>

subsection \<open>C1: an authenticated state holds a credential\<close>

text \<open>
  C1, as the specification states it: every operation keeps the invariant, also a
  successful \<open>verifyToken(c)\<close> called while the credential in memory is null. It does
  not: \<open>verifyToken\<close> never stores the token it verifies. After an initialisation over an
  empty store the invariant holds; a successful \<open>verifyToken("abc")\<close> then returns true
  and leaves \<open>isAuthenticated\<close> true with \<open>token\<close> null.
\<close>

theorem verifyToken_explicit_counterexample:
  "credential_held (initialize defaultAuthConfig text_JSON NetworkError NetworkError Map.empty)
   \<and> fst (verifyToken defaultAuthConfig text_JSON
        (current_render (initialize defaultAuthConfig text_JSON NetworkError NetworkError Map.empty))
        (Some ''abc'') (HttpReply 200 True (JsonValue ''{}'')) NetworkError
        (initialize defaultAuthConfig text_JSON NetworkError NetworkError Map.empty))
   \<and> \<not> credential_held (snd (verifyToken defaultAuthConfig text_JSON
        (current_render (initialize defaultAuthConfig text_JSON NetworkError NetworkError Map.empty))
        (Some ''abc'') (HttpReply 200 True (JsonValue ''{}'')) NetworkError
        (initialize defaultAuthConfig text_JSON NetworkError NetworkError Map.empty)))"
proof -
  let ?w = "initialize defaultAuthConfig text_JSON NetworkError NetworkError Map.empty"
  have w: "?w = (mount Map.empty)\<lparr>loading := False\<rparr>"
    by (rule initialize_no_token) simp
  have cur: "truthy (currentToken (current_render ?w) (Some ''abc''))"
    by (simp add: currentToken_def)
  have acc: "accepted (HttpReply 200 True (JsonValue ''{}'') :: string fetch_outcome)"
    by (simp add: accepted_iff)
  show ?thesis
    unfolding verifyToken_accepted [OF cur acc]
    by (simp add: w credential_held_def mount_def setItem_def send_def Let_def)
qed

text \<open>
  C1 (amended): the invariant holds after \<open>initialize\<close>, after \<open>login\<close> and after
  \<open>logout\<close>; \<open>updateUser\<close> and \<open>refreshAccessToken\<close> preserve it; \<open>verifyToken\<close>
  establishes it whenever the credential in memory is not null, and preserves it when it
  is called without argument from the current render. (\<open>verifyToken\<close> does not store
  the credential it is given.)
\<close>

theorem credential_held_preserved:
  "credential_held (initialize config js vo ro store)
   \<and> credential_held (login config js t rt u w)
   \<and> credential_held (logout config w)
   \<and> (credential_held w \<longrightarrow> credential_held (updateUser config js x w))
   \<and> (credential_held w \<longrightarrow> credential_held (snd (refreshAccessToken config js r ro w)))
   \<and> (token w \<noteq> None \<longrightarrow> credential_held (snd (verifyToken config js r arg vo ro w)))
   \<and> (credential_held w \<longrightarrow>
        credential_held (snd (verifyToken config js (current_render w) None vo ro w)))"
  by (simp add: credential_held_initialize credential_held_login credential_held_logout
      credential_held_updateUser credential_held_refresh credential_held_verify
      credential_held_verify_current)

theorem credential_held_preserved_witness:
  "credential_held (signed_in (Some ''r1''))
   \<and> token (signed_in (Some ''r1'')) \<noteq> None
   \<and> credential_held (updateUser defaultAuthConfig text_JSON ''{}'' (signed_in (Some ''r1'')))
   \<and> credential_held (snd (refreshAccessToken defaultAuthConfig text_JSON
        (current_render (signed_in (Some ''r1''))) renewed (signed_in (Some ''r1''))))
   \<and> credential_held (snd (verifyToken defaultAuthConfig text_JSON
        (current_render (signed_in (Some ''r1''))) (Some ''xyz'') unauthorized renewed
        (signed_in (Some ''r1''))))
   \<and> credential_held (snd (verifyToken defaultAuthConfig text_JSON
        (current_render (signed_in (Some ''r1''))) None unauthorized renewed
        (signed_in (Some ''r1''))))"
proof -
  let ?init = "initialize defaultAuthConfig text_JSON NetworkError NetworkError Map.empty"
  let ?w = "signed_in (Some ''r1'')"
  have held: "credential_held ?w"
    using credential_held_preserved [where config = defaultAuthConfig and js = text_JSON
        and t = "''abc''" and rt = "Some ''r1''" and u = None and w = ?init]
    by (simp add: signed_in_def)
  have tok: "token ?w \<noteq> None" by (simp add: signed_in_state)
  note c = credential_held_preserved [where config = defaultAuthConfig and js = text_JSON
        and w = ?w and x = "''{}''" and r = "current_render ?w" and arg = "Some ''xyz''"
        and vo = unauthorized and ro = renewed]
  show ?thesis using held tok c by blast
qed

subsection \<open>C2: the loading flag after initialisation\<close>

text \<open>
  C2 expects that an initialisation whose verification is rejected and whose refresh
  succeeds ends authenticated, with \<open>loading\<close> false. The code does not get there. With
  the default configuration, a store holding the token \<open>abc\<close> and the refresh token
  \<open>r1\<close>, a verify endpoint answering 401 and a refresh endpoint that would answer 200
  with a new token, \<open>initialize\<close> sends the verify request only and ends logged out with
  the store emptied: the \<open>verifyToken\<close> of the first render reads \<open>refreshToken = null\<close>.
\<close>

theorem initialize_skips_refresh:
  "initialize defaultAuthConfig text_JSON unauthorized renewed
      [''authToken'' \<mapsto> ''abc'', ''refreshToken'' \<mapsto> ''r1'']
    = \<lparr>token = None, refreshToken = None, user = None, loading = False, isAuthenticated = False,
       localStorage = Map.empty, requests = [verify_request defaultAuthConfig ''abc'']\<rparr>"
proof -
  have "truthy ([''authToken'' \<mapsto> ''abc'', ''refreshToken'' \<mapsto> ''r1'']
          (tokenKey (storage defaultAuthConfig)))"
    by (simp add: default_keys)
  moreover have "autoVerify defaultAuthConfig" by (simp add: defaultAuthConfig_def)
  ultimately show ?thesis
    by (simp add: initialize_rejected fixture_outcomes)
       (auto simp: default_keys configured_keys_def restrict_map_def fun_eq_iff)
qed

text \<open>
  The same answers given to a \<open>verifyToken()\<close> of a render that sees both tokens, in a
  state that is still loading: the refresh recovers the session, \<open>verifyToken\<close> returns
  true, and \<open>loading\<close> stays true.
\<close>

lemma recovered_verify_keeps_loading:
  "fst (verifyToken defaultAuthConfig text_JSON (current_render (signed_in (Some ''r1''))) None
         unauthorized renewed ((signed_in (Some ''r1''))\<lparr>loading := True\<rparr>))
   \<and> loading (snd (verifyToken defaultAuthConfig text_JSON
         (current_render (signed_in (Some ''r1''))) None
         unauthorized renewed ((signed_in (Some ''r1''))\<lparr>loading := True\<rparr>)))
   \<and> isAuthenticated (snd (verifyToken defaultAuthConfig text_JSON
         (current_render (signed_in (Some ''r1''))) None
         unauthorized renewed ((signed_in (Some ''r1''))\<lparr>loading := True\<rparr>)))"
proof -
  let ?r = "current_render (signed_in (Some ''r1''))"
  have cur: "truthy (currentToken ?r None)" by (simp add: currentToken_def signed_in_state)
  have rt: "truthy (refreshToken ?r)" by (simp add: signed_in_state)
  have ep: "truthy (refresh (endpoints defaultAuthConfig))" by (simp add: default_keys)
  show ?thesis
    using cur rt ep
    by (simp add: fixture_outcomes verifyToken_rejected_refresh refresh_fst
        refresh_success_state refresh_loading send_def)
qed

subsection \<open>C3: login, then a reload without verification\<close>

text \<open>
  C3, as the specification states it: for every credential \<open>t\<close>, \<open>login(t, r, u)\<close>
  followed by a fresh \<open>initialize()\<close> with \<open>autoVerify = false\<close> restores the session.
  For the empty string it does not: \<open>login\<close> stores it and sets \<open>isAuthenticated\<close>, and
  the initialisation treats a stored empty token as no token.
\<close>

theorem login_reload_empty_credential_counterexample:
  "isAuthenticated (login no_autoVerify text_JSON [] (Some ''r1'') (Some ''{}'') (mount Map.empty))
   \<and> token (initialize no_autoVerify text_JSON NetworkError NetworkError
        (localStorage (login no_autoVerify text_JSON [] (Some ''r1'') (Some ''{}'')
           (mount Map.empty)))) = None
   \<and> \<not> isAuthenticated (initialize no_autoVerify text_JSON NetworkError NetworkError
        (localStorage (login no_autoVerify text_JSON [] (Some ''r1'') (Some ''{}'')
           (mount Map.empty))))"
  by (simp add: default_keys login_def initialize_def setItem_def getItem_def
      mount_def key_of_def or_empty_def text_JSON_def Let_def)

text \<open>
  C3 (amended): let the credential \<open>t\<close> and the renewal credential \<open>r\<close> be non-empty,
  let the configuration have \<open>autoVerify = false\<close> and three pairwise distinct storage
  keys, the two optional ones configured, and let the user \<open>u\<close> survive
  \<open>JSON.parse(JSON.stringify(u))\<close>, its JSON text not being empty. Then \<open>login(t, r, u)\<close> from any state, followed by a
  fresh \<open>initialize()\<close> over the store it leaves, yields \<open>token = t\<close>,
  \<open>refreshToken = r\<close>, \<open>user = u\<close>, \<open>isAuthenticated\<close> true and \<open>loading\<close> false, and
  neither of the two sends a request.
\<close>

theorem login_reload_roundtrip:
  assumes "t \<noteq> []" and "rt \<noteq> []"
    and "\<not> autoVerify config"
    and "refreshTokenKey (storage config) = Some rk" and "userKey (storage config) = Some uk"
    and "distinct [tokenKey (storage config), rk, uk]"
    and "stringify js u \<noteq> []" and "parse js (stringify js u) = Parsed (Some u)"
  shows "token (initialize config js vo ro
           (localStorage (login config js t (Some rt) (Some u) w))) = Some t
   \<and> refreshToken (initialize config js vo ro
           (localStorage (login config js t (Some rt) (Some u) w))) = Some rt
   \<and> user (initialize config js vo ro
           (localStorage (login config js t (Some rt) (Some u) w))) = Some u
   \<and> isAuthenticated (initialize config js vo ro
           (localStorage (login config js t (Some rt) (Some u) w)))
   \<and> \<not> loading (initialize config js vo ro
           (localStorage (login config js t (Some rt) (Some u) w)))
   \<and> requests (initialize config js vo ro
           (localStorage (login config js t (Some rt) (Some u) w))) = []
   \<and> requests (login config js t (Some rt) (Some u) w) = requests w"
  using assms
  by (simp add: login_def initialize_def setItem_def getItem_def
      mount_def key_of_def or_empty_def Let_def)

theorem login_reload_roundtrip_witness:
  "\<not> autoVerify no_autoVerify
   \<and> distinct [tokenKey (storage no_autoVerify), ''refreshToken'', ''user'']
   \<and> parse text_JSON (stringify text_JSON ''{}'') = Parsed (Some ''{}'')
   \<and> token (initialize no_autoVerify text_JSON unauthorized renewed
        (localStorage (login no_autoVerify text_JSON ''abc'' (Some ''r1'') (Some ''{}'')
           (mount Map.empty)))) = Some ''abc''
   \<and> refreshToken (initialize no_autoVerify text_JSON unauthorized renewed
        (localStorage (login no_autoVerify text_JSON ''abc'' (Some ''r1'') (Some ''{}'')
           (mount Map.empty)))) = Some ''r1''
   \<and> user (initialize no_autoVerify text_JSON unauthorized renewed
        (localStorage (login no_autoVerify text_JSON ''abc'' (Some ''r1'') (Some ''{}'')
           (mount Map.empty)))) = Some ''{}''
   \<and> isAuthenticated (initialize no_autoVerify text_JSON unauthorized renewed
        (localStorage (login no_autoVerify text_JSON ''abc'' (Some ''r1'') (Some ''{}'')
           (mount Map.empty))))
   \<and> requests (initialize no_autoVerify text_JSON unauthorized renewed
        (localStorage (login no_autoVerify text_JSON ''abc'' (Some ''r1'') (Some ''{}'')
           (mount Map.empty)))) = []"
proof -
  have h1: "''abc'' \<noteq> []" and h2: "''r1'' \<noteq> []" by simp_all
  have h3: "\<not> autoVerify no_autoVerify" by (simp add: default_keys)
  have h4: "refreshTokenKey (storage no_autoVerify) = Some ''refreshToken''"
    and h5: "userKey (storage no_autoVerify) = Some ''user''"
    and h6: "distinct [tokenKey (storage no_autoVerify), ''refreshToken'', ''user'']"
    by (simp_all add: default_keys)
  have h7: "stringify text_JSON ''{}'' \<noteq> []"
    and h8: "parse text_JSON (stringify text_JSON ''{}'') = Parsed (Some ''{}'')"
    by (simp_all add: text_JSON_def)
  note c = login_reload_roundtrip [OF h1 h2 h3 h4 h5 h6 h7 h8, of unauthorized renewed
      "mount Map.empty"]
  show ?thesis using h3 h6 h8 c by blast
qed

subsection \<open>C4: a rejected verification without refresh path\<close>

text \<open>
  C4: let \<open>verifyToken\<close> have a credential to verify (its argument, or the token of its
  render), let the verify endpoint reject it, and let there be no refresh path: no
  renewal credential in the render, or no refresh endpoint configured. Then
  \<open>verifyToken\<close> returns false and leaves the state that \<open>logout\<close> leaves:
  \<open>isAuthenticated\<close> false, the credential, the renewal credential and the user null,
  \<open>loading\<close> false, and the store without the token key and the other configured keys.
\<close>

theorem verifyToken_rejected_logs_out:
  assumes "truthy (currentToken r arg)" and "\<not> accepted vo"
    and "\<not> truthy (refreshToken r) \<or> \<not> truthy (refresh (endpoints config))"
  shows "\<not> fst (verifyToken config js r arg vo ro w)
   \<and> snd (verifyToken config js r arg vo ro w) =
       logout config ((send (verify_request config (the (currentToken r arg))) w)
         \<lparr>loading := False\<rparr>)
   \<and> \<not> isAuthenticated (snd (verifyToken config js r arg vo ro w))
   \<and> token (snd (verifyToken config js r arg vo ro w)) = None
   \<and> refreshToken (snd (verifyToken config js r arg vo ro w)) = None
   \<and> user (snd (verifyToken config js r arg vo ro w)) = None
   \<and> \<not> loading (snd (verifyToken config js r arg vo ro w))
   \<and> localStorage (snd (verifyToken config js r arg vo ro w)) (tokenKey (storage config)) = None
   \<and> localStorage (snd (verifyToken config js r arg vo ro w)) =
       localStorage w |` (- configured_keys config)"
  using assms
  by (simp add: verifyToken_rejected_no_refresh logout_state send_def configured_keys_def)

theorem verifyToken_rejected_logs_out_witness:
  "truthy (currentToken (current_render (signed_in None)) None)
   \<and> \<not> accepted unauthorized
   \<and> \<not> truthy (refreshToken (current_render (signed_in None)))
   \<and> localStorage (signed_in None) ''authToken'' = Some ''abc''
   \<and> \<not> fst (verifyToken defaultAuthConfig text_JSON (current_render (signed_in None)) None
          unauthorized renewed (signed_in None))
   \<and> \<not> isAuthenticated (snd (verifyToken defaultAuthConfig text_JSON
          (current_render (signed_in None)) None unauthorized renewed (signed_in None)))
   \<and> token (snd (verifyToken defaultAuthConfig text_JSON
          (current_render (signed_in None)) None unauthorized renewed (signed_in None))) = None
   \<and> localStorage (snd (verifyToken defaultAuthConfig text_JSON
          (current_render (signed_in None)) None unauthorized renewed (signed_in None)))
        ''authToken'' = None"
proof -
  let ?r = "current_render (signed_in None)"
  have h1: "truthy (currentToken ?r None)" by (simp add: currentToken_def signed_in_state)
  have h2: "\<not> accepted unauthorized" by (simp add: fixture_outcomes)
  have h3: "\<not> truthy (refreshToken ?r)" by (simp add: signed_in_state)
  have st: "localStorage (signed_in None) ''authToken'' = Some ''abc''"
    by (simp add: signed_in_state)
  note c = verifyToken_rejected_logs_out [OF h1 h2 disjI1 [OF h3], of defaultAuthConfig
      text_JSON renewed "signed_in None", unfolded default_keys]
  show ?thesis using h1 h2 h3 st c by blast
qed

subsection \<open>C5: a rejected verification recovered by the refresh\<close>

text \<open>
  C5 says that in every state that holds a credential and a renewal credential, with a
  refresh endpoint configured, a verification that is rejected while the refresh
  endpoint returns a new credential set ends with \<open>verifyToken\<close> returning true and the
  session authenticated under the refreshed credential. The call that the initialisation
  effect makes runs in such a state, \<open>restoring\<close>, and fails it: \<open>verifyToken\<close> is the one
  of the first render, it sends the verify request only, returns false and logs out.
\<close>

theorem init_verifyToken_not_recovered:
  "token restoring = Some ''abc''
   \<and> refreshToken restoring = Some ''r1''
   \<and> truthy (refresh (endpoints defaultAuthConfig))
   \<and> \<not> accepted unauthorized
   \<and> accepted renewed
   \<and> initialize defaultAuthConfig text_JSON unauthorized renewed stored_session =
       snd (verifyToken defaultAuthConfig text_JSON (current_render (mount stored_session))
             (Some ''abc'') unauthorized renewed restoring)
   \<and> \<not> fst (verifyToken defaultAuthConfig text_JSON (current_render (mount stored_session))
             (Some ''abc'') unauthorized renewed restoring)
   \<and> \<not> isAuthenticated (snd (verifyToken defaultAuthConfig text_JSON
             (current_render (mount stored_session)) (Some ''abc'') unauthorized renewed
             restoring))
   \<and> token (snd (verifyToken defaultAuthConfig text_JSON
             (current_render (mount stored_session)) (Some ''abc'') unauthorized renewed
             restoring)) = None
   \<and> requests (snd (verifyToken defaultAuthConfig text_JSON
             (current_render (mount stored_session)) (Some ''abc'') unauthorized renewed
             restoring)) = [verify_request defaultAuthConfig ''abc'']"
proof -
  have rej: "\<not> accepted unauthorized" by (simp add: fixture_outcomes)
  note run = verifyToken_rejected_no_refresh
    [OF first_render_call(1) rej disjI1 [OF first_render_call(2)],
     of defaultAuthConfig text_JSON renewed restoring]
  show ?thesis
    by (simp add: run first_render_call(3) initialize_stored_session restoring_state
        fixture_outcomes default_keys logout_state send_def)
qed

text \<open>
  The recovery itself works for every call whose render holds the renewal credential,
  as a call from the current render of a state that holds one does: if the verify
  endpoint rejects the credential and the refresh endpoint answers with a new credential
  set \<open>d\<close>, then \<open>verifyToken\<close> returns true, \<open>isAuthenticated\<close> is true, and the
  credential in memory is the one of \<open>d\<close>. The verify request is sent first, the
  refresh request second.
\<close>

lemma verifyToken_recovers_by_refresh:
  assumes "truthy (currentToken r arg)" and "\<not> accepted vo"
    and "truthy (refreshToken r)" and "truthy (refresh (endpoints config))"
    and "ro = HttpReply st True (JsonValue d)" and "200 \<le> st" and "st < 300"
  shows "fst (verifyToken config js r arg vo ro w)
   \<and> isAuthenticated (snd (verifyToken config js r arg vo ro w))
   \<and> token (snd (verifyToken config js r arg vo ro w)) = Some (newToken d)
   \<and> requests (snd (verifyToken config js r arg vo ro w)) =
       requests w @ [verify_request config (the (currentToken r arg)),
                     refresh_request config (the (refreshToken r))]"
proof -
  have acc: "accepted ro" using assms(5-7) by (simp add: accepted_iff)
  have d: "data (response_of ro) = Some d" using assms(5-7) by (simp add: accepted_data)
  show ?thesis
    using assms(1-4) acc d
      refresh_accepted_state [OF assms(3,4) acc, of js
        "send (verify_request config (the (currentToken r arg))) w"]
    by (simp add: verifyToken_rejected_refresh refresh_fst send_def)
qed

lemma verifyToken_recovers_by_refresh_example:
  "truthy (currentToken (current_render (signed_in (Some ''r1''))) None)
   \<and> \<not> accepted unauthorized
   \<and> truthy (refreshToken (current_render (signed_in (Some ''r1''))))
   \<and> truthy (refresh (endpoints defaultAuthConfig))
   \<and> token (signed_in (Some ''r1'')) = Some ''abc''
   \<and> fst (verifyToken defaultAuthConfig text_JSON (current_render (signed_in (Some ''r1'')))
        None unauthorized renewed (signed_in (Some ''r1'')))
   \<and> isAuthenticated (snd (verifyToken defaultAuthConfig text_JSON
        (current_render (signed_in (Some ''r1''))) None unauthorized renewed
        (signed_in (Some ''r1''))))
   \<and> token (snd (verifyToken defaultAuthConfig text_JSON
        (current_render (signed_in (Some ''r1''))) None unauthorized renewed
        (signed_in (Some ''r1'')))) = Some ''new''"
proof -
  let ?r = "current_render (signed_in (Some ''r1''))"
  have h1: "truthy (currentToken ?r None)" by (simp add: currentToken_def signed_in_state)
  have h2: "\<not> accepted unauthorized" by (simp add: fixture_outcomes)
  have h3: "truthy (refreshToken ?r)" by (simp add: signed_in_state)
  have h4: "truthy (refresh (endpoints defaultAuthConfig))" by (simp add: default_keys)
  have h5: "renewed = HttpReply 200 True
      (JsonValue \<lparr>newToken = ''new'', newRefreshToken = None, newUser = None\<rparr>)"
    by (simp add: renewed_def)
  have tok: "token (signed_in (Some ''r1'')) = Some ''abc''" by (simp add: signed_in_state)
  have c: "fst (verifyToken defaultAuthConfig text_JSON ?r None unauthorized renewed
               (signed_in (Some ''r1'')))
     \<and> isAuthenticated (snd (verifyToken defaultAuthConfig text_JSON ?r None unauthorized
               renewed (signed_in (Some ''r1''))))
     \<and> token (snd (verifyToken defaultAuthConfig text_JSON ?r None unauthorized renewed
               (signed_in (Some ''r1'')))) = Some ''new''"
    using verifyToken_recovers_by_refresh [OF h1 h2 h3 h4 h5, of text_JSON
        "signed_in (Some ''r1'')"]
    by simp
  show ?thesis using h1 h2 h3 h4 tok c by blast
qed

subsection \<open>C6: transport and parse errors during verification\<close>

text \<open>
  C6 says that in every state that holds a credential and a renewal credential, with a
  refresh endpoint configured, a transport or parse error of the verify request behaves
  like a rejected verification: the refresh is attempted first, and the session is logged
  out only if the refresh fails too. In the call that the initialisation effect makes, in
  the state \<open>restoring\<close>, a transport error does give the result and the state of a 401,
  but no refresh is attempted although the refresh endpoint would return a new
  credential set: the verify request is the only one sent, and the session is logged out.
\<close>

theorem init_verifyToken_transport_error:
  "token restoring = Some ''abc''
   \<and> refreshToken restoring = Some ''r1''
   \<and> truthy (refresh (endpoints defaultAuthConfig))
   \<and> accepted renewed
   \<and> initialize defaultAuthConfig text_JSON NetworkError renewed stored_session =
       snd (verifyToken defaultAuthConfig text_JSON (current_render (mount stored_session))
             (Some ''abc'') NetworkError renewed restoring)
   \<and> verifyToken defaultAuthConfig text_JSON (current_render (mount stored_session))
         (Some ''abc'') NetworkError renewed restoring
       = verifyToken defaultAuthConfig text_JSON (current_render (mount stored_session))
         (Some ''abc'') unauthorized renewed restoring
   \<and> \<not> fst (verifyToken defaultAuthConfig text_JSON (current_render (mount stored_session))
             (Some ''abc'') NetworkError renewed restoring)
   \<and> \<not> isAuthenticated (snd (verifyToken defaultAuthConfig text_JSON
             (current_render (mount stored_session)) (Some ''abc'') NetworkError renewed
             restoring))
   \<and> requests (snd (verifyToken defaultAuthConfig text_JSON
             (current_render (mount stored_session)) (Some ''abc'') NetworkError renewed
             restoring)) = [verify_request defaultAuthConfig ''abc'']"
proof -
  have rej: "\<not> accepted unauthorized" "\<not> accepted (NetworkError :: string fetch_outcome)"
    by (simp_all add: fixture_outcomes)
  note run1 = verifyToken_rejected_no_refresh
    [OF first_render_call(1) rej(2) disjI1 [OF first_render_call(2)],
     of defaultAuthConfig text_JSON renewed restoring]
  note run2 = verifyToken_rejected_no_refresh
    [OF first_render_call(1) rej(1) disjI1 [OF first_render_call(2)],
     of defaultAuthConfig text_JSON renewed restoring]
  show ?thesis
    by (simp add: run1 run2 first_render_call(3) initialize_stored_session restoring_state
        fixture_outcomes default_keys logout_state send_def)
qed

text \<open>
  What holds of every call: a verification that fails in the transport, in the parser or
  on the content type gives the same result and the same state as any other rejected
  verification.
\<close>

lemma verifyToken_rejections_agree:
  "\<not> accepted vo \<Longrightarrow> \<not> accepted vo' \<Longrightarrow>
    verifyToken config js r arg vo ro w = verifyToken config js r arg vo' ro w"
proof (cases "truthy (currentToken r arg)")
  case False
  then show ?thesis by (simp add: verifyToken_no_token)
next
  case cur: True
  assume rej: "\<not> accepted vo" "\<not> accepted vo'"
  show ?thesis
  proof (cases "truthy (refreshToken r) \<and> truthy (refresh (endpoints config))")
    case True
    with cur rej show ?thesis by (simp add: verifyToken_rejected_refresh)
  next
    case False
    with cur rej show ?thesis by (simp add: verifyToken_rejected_no_refresh)
  qed
qed

lemma verifyToken_failures_agree:
  assumes "vo = NetworkError \<or> vo = HttpReply st True InvalidJson \<or> vo = HttpReply st False body"
    and "\<not> accepted rejected"
  shows "verifyToken config js r arg vo ro w = verifyToken config js r arg rejected ro w"
proof -
  have "\<not> accepted vo" using assms(1) by (auto simp: accepted_iff)
  then show ?thesis using assms(2) by (rule verifyToken_rejections_agree)
qed

text \<open>
  For a call whose render holds the renewal credential, as a call from the current
  render of a state that holds one does, the refresh request is sent after the verify
  request; if the refresh is accepted the call returns true with the session
  authenticated under the refreshed credential, and only if it is not does the call
  return false with the state logged out.
\<close>

lemma verifyToken_transport_error:
  assumes "truthy (currentToken r arg)"
    and "truthy (refreshToken r)" and "truthy (refresh (endpoints config))"
    and "vo = NetworkError \<or> vo = HttpReply st True InvalidJson \<or> vo = HttpReply st False body"
    and "\<not> accepted rejected"
  shows "verifyToken config js r arg vo ro w = verifyToken config js r arg rejected ro w
   \<and> requests (snd (verifyToken config js r arg vo ro w)) =
       requests w @ [verify_request config (the (currentToken r arg)),
                     refresh_request config (the (refreshToken r))]
   \<and> (accepted ro \<longrightarrow>
        fst (verifyToken config js r arg vo ro w)
        \<and> isAuthenticated (snd (verifyToken config js r arg vo ro w))
        \<and> token (snd (verifyToken config js r arg vo ro w))
            = Some (newToken (the (data (response_of ro)))))
   \<and> (\<not> accepted ro \<longrightarrow>
        \<not> fst (verifyToken config js r arg vo ro w)
        \<and> snd (verifyToken config js r arg vo ro w) =
            logout config
              ((send (refresh_request config (the (refreshToken r)))
                 (send (verify_request config (the (currentToken r arg))) w))
               \<lparr>loading := False\<rparr>))"
proof -
  have rej: "\<not> accepted vo" using assms(4) by (auto simp: accepted_iff)
  have same: "verifyToken config js r arg vo ro w = verifyToken config js r arg rejected ro w"
    using assms(1-3,5) rej by (simp add: verifyToken_rejected_refresh)
  have rest:
    "requests (snd (verifyToken config js r arg vo ro w)) =
       requests w @ [verify_request config (the (currentToken r arg)),
                     refresh_request config (the (refreshToken r))]
     \<and> (accepted ro \<longrightarrow>
        fst (verifyToken config js r arg vo ro w)
        \<and> isAuthenticated (snd (verifyToken config js r arg vo ro w))
        \<and> token (snd (verifyToken config js r arg vo ro w))
            = Some (newToken (the (data (response_of ro)))))
     \<and> (\<not> accepted ro \<longrightarrow>
        \<not> fst (verifyToken config js r arg vo ro w)
        \<and> snd (verifyToken config js r arg vo ro w) =
            logout config
              ((send (refresh_request config (the (refreshToken r)))
                 (send (verify_request config (the (currentToken r arg))) w))
               \<lparr>loading := False\<rparr>))"
  proof (cases "accepted ro")
    case True
    with assms(1-3) rej
      refresh_accepted_state [OF assms(2,3) True, of js
        "send (verify_request config (the (currentToken r arg))) w"]
    show ?thesis
      by (simp add: verifyToken_rejected_refresh refresh_fst send_def)
  next
    case False
    with assms(1-3) rej show ?thesis
      by (simp add: verifyToken_rejected_refresh refresh_fst refreshAccessToken_rejected
          logout_state send_def)
  qed
  from same rest show ?thesis by (rule conjI)
qed

lemma verifyToken_transport_error_example:
  "truthy (currentToken (current_render (signed_in (Some ''r1''))) None)
   \<and> truthy (refreshToken (current_render (signed_in (Some ''r1''))))
   \<and> truthy (refresh (endpoints defaultAuthConfig))
   \<and> \<not> accepted unauthorized
   \<and> accepted renewed
   \<and> \<not> accepted (NetworkError :: string NewCredentials fetch_outcome)
   \<and> verifyToken defaultAuthConfig text_JSON (current_render (signed_in (Some ''r1''))) None
        NetworkError renewed (signed_in (Some ''r1''))
      = verifyToken defaultAuthConfig text_JSON (current_render (signed_in (Some ''r1''))) None
        unauthorized renewed (signed_in (Some ''r1''))
   \<and> fst (verifyToken defaultAuthConfig text_JSON (current_render (signed_in (Some ''r1'')))
        None NetworkError renewed (signed_in (Some ''r1'')))
   \<and> token (snd (verifyToken defaultAuthConfig text_JSON
        (current_render (signed_in (Some ''r1''))) None NetworkError renewed
        (signed_in (Some ''r1'')))) = Some ''new''
   \<and> \<not> fst (verifyToken defaultAuthConfig text_JSON (current_render (signed_in (Some ''r1'')))
        None NetworkError NetworkError (signed_in (Some ''r1'')))
   \<and> \<not> isAuthenticated (snd (verifyToken defaultAuthConfig text_JSON
        (current_render (signed_in (Some ''r1''))) None NetworkError NetworkError
        (signed_in (Some ''r1''))))"
proof -
  let ?r = "current_render (signed_in (Some ''r1''))"
  let ?w = "signed_in (Some ''r1'')"
  have h1: "truthy (currentToken ?r None)" by (simp add: currentToken_def signed_in_state)
  have h2: "truthy (refreshToken ?r)" by (simp add: signed_in_state)
  have h3: "truthy (refresh (endpoints defaultAuthConfig))" by (simp add: default_keys)
  have h4: "(NetworkError :: string fetch_outcome) = NetworkError
      \<or> (NetworkError :: string fetch_outcome) = HttpReply 0 True InvalidJson
      \<or> (NetworkError :: string fetch_outcome) = HttpReply 0 False InvalidJson"
    by simp
  have h5: "\<not> accepted unauthorized" by (simp add: fixture_outcomes)
  have a1: "accepted renewed"
    and a2: "\<not> accepted (NetworkError :: string NewCredentials fetch_outcome)"
    by (simp_all add: fixture_outcomes)
  note c1 = verifyToken_transport_error [OF h1 h2 h3 h4 h5, of text_JSON renewed ?w]
  note c2 = verifyToken_transport_error [OF h1 h2 h3 h4 h5, of text_JSON NetworkError ?w]
  have new: "token (snd (verifyToken defaultAuthConfig text_JSON ?r None NetworkError renewed ?w))
      = Some ''new''"
    using conjunct2 [OF c1] a1 by (simp add: fixture_outcomes)
  have out: "\<not> isAuthenticated (snd (verifyToken defaultAuthConfig text_JSON ?r None
      NetworkError NetworkError ?w))"
    using conjunct2 [OF c2] a2 by (simp add: logout_state)
  show ?thesis using h1 h2 h3 h5 a1 a2 c1 c2 new out by blast
qed

subsection \<open>C7: login\<close>

text \<open>
  C7, as the specification states it: after \<open>login\<close> the store holds the renewal
  credential and the user only if they were supplied. \<open>login\<close> only writes: over a
  session that holds the refresh token \<open>r1\<close>, \<open>login("t2")\<close> without refresh token
  stores the new token and leaves \<open>r1\<close> in the store and in memory.
\<close>

theorem login_keeps_prior_refreshToken_counterexample:
  "refreshTokenKey (storage defaultAuthConfig) = Some ''refreshToken''
   \<and> isAuthenticated (login defaultAuthConfig text_JSON ''t2'' None None (signed_in (Some ''r1'')))
   \<and> localStorage (login defaultAuthConfig text_JSON ''t2'' None None (signed_in (Some ''r1'')))
        ''authToken'' = Some ''t2''
   \<and> localStorage (login defaultAuthConfig text_JSON ''t2'' None None (signed_in (Some ''r1'')))
        ''refreshToken'' = Some ''r1''
   \<and> refreshToken (login defaultAuthConfig text_JSON ''t2'' None None (signed_in (Some ''r1'')))
        = Some ''r1''"
  by (simp add: signed_in_state login_def setItem_def default_keys Let_def)

text \<open>
  C7 (amended): let the three keys that \<open>login\<close> may write be pairwise distinct. After
  \<open>login(t, rt, u)\<close>, \<open>isAuthenticated\<close> is true and the store holds \<open>t\<close> under the
  token key. If the renewal credential is given (truthy) the store and the memory hold it,
  otherwise \<open>login\<close> leaves its key and its cell as they were; likewise for the user,
  stored as \<open>JSON.stringify(u)\<close>. Hence a store that held nothing under the key of the
  renewal credential, or of the user, holds a value there after \<open>login\<close> exactly when
  that argument was given. No other key changes, \<open>loading\<close> is unchanged and no request
  is sent.
\<close>

theorem login_persists:
  assumes "distinct [tokenKey (storage config), key_of (refreshTokenKey (storage config)),
                     key_of (userKey (storage config))]"
  shows "isAuthenticated (login config js t rt u w)
   \<and> token (login config js t rt u w) = Some t
   \<and> localStorage (login config js t rt u w) (tokenKey (storage config)) = Some t
   \<and> (truthy rt \<longrightarrow>
        localStorage (login config js t rt u w) (key_of (refreshTokenKey (storage config))) = rt
        \<and> refreshToken (login config js t rt u w) = rt)
   \<and> (\<not> truthy rt \<longrightarrow>
        localStorage (login config js t rt u w) (key_of (refreshTokenKey (storage config)))
          = localStorage w (key_of (refreshTokenKey (storage config)))
        \<and> refreshToken (login config js t rt u w) = refreshToken w)
   \<and> (u = Some x \<longrightarrow>
        localStorage (login config js t rt u w) (key_of (userKey (storage config)))
          = Some (stringify js x)
        \<and> user (login config js t rt u w) = Some x)
   \<and> (u = None \<longrightarrow>
        localStorage (login config js t rt u w) (key_of (userKey (storage config)))
          = localStorage w (key_of (userKey (storage config)))
        \<and> user (login config js t rt u w) = user w)
   \<and> (localStorage w (key_of (refreshTokenKey (storage config))) = None \<longrightarrow>
        (localStorage (login config js t rt u w) (key_of (refreshTokenKey (storage config)))
           \<noteq> None \<longleftrightarrow> truthy rt))
   \<and> (localStorage w (key_of (userKey (storage config))) = None \<longrightarrow>
        (localStorage (login config js t rt u w) (key_of (userKey (storage config)))
           \<noteq> None \<longleftrightarrow> u \<noteq> None))
   \<and> (\<forall>k. k \<notin> {tokenKey (storage config), key_of (refreshTokenKey (storage config)),
                  key_of (userKey (storage config))} \<longrightarrow>
          localStorage (login config js t rt u w) k = localStorage w k)
   \<and> loading (login config js t rt u w) = loading w
   \<and> requests (login config js t rt u w) = requests w"
  using assms
  by (cases u) (auto simp: login_def setItem_def Let_def dest: truthy_Some)

theorem login_persists_witness:
  "distinct [tokenKey (storage defaultAuthConfig),
             key_of (refreshTokenKey (storage defaultAuthConfig)),
             key_of (userKey (storage defaultAuthConfig))]
   \<and> isAuthenticated (login defaultAuthConfig text_JSON ''abc'' (Some ''r1'') (Some ''{}'')
        (mount Map.empty))
   \<and> localStorage (login defaultAuthConfig text_JSON ''abc'' (Some ''r1'') (Some ''{}'')
        (mount Map.empty)) ''authToken'' = Some ''abc''
   \<and> localStorage (login defaultAuthConfig text_JSON ''abc'' (Some ''r1'') (Some ''{}'')
        (mount Map.empty)) ''refreshToken'' = Some ''r1''
   \<and> localStorage (login defaultAuthConfig text_JSON ''abc'' (Some ''r1'') (Some ''{}'')
        (mount Map.empty)) ''user'' = Some ''{}''
   \<and> localStorage (login defaultAuthConfig text_JSON ''abc'' None None (mount Map.empty))
        ''authToken'' = Some ''abc''
   \<and> localStorage (login defaultAuthConfig text_JSON ''abc'' None None (mount Map.empty))
        ''refreshToken'' = None
   \<and> localStorage (login defaultAuthConfig text_JSON ''abc'' None None (mount Map.empty))
        ''user'' = None"
proof -
  have d: "distinct [tokenKey (storage defaultAuthConfig),
             key_of (refreshTokenKey (storage defaultAuthConfig)),
             key_of (userKey (storage defaultAuthConfig))]"
    by (simp add: default_keys key_of_def)
  show ?thesis
    using d
      login_persists [OF d, where js = text_JSON and t = "''abc''" and rt = "Some ''r1''"
        and u = "Some ''{}''" and x = "''{}''" and w = "mount Map.empty"]
      login_persists [OF d, where js = text_JSON and t = "''abc''" and rt = None
        and u = None and x = "''{}''" and w = "mount Map.empty"]
    by (simp add: default_keys key_of_def text_JSON_def mount_def)
qed

subsection \<open>C8: logout\<close>

text \<open>
  C8: from every state, \<open>logout\<close> leaves \<open>isAuthenticated\<close> false and the credential,
  the renewal credential and the user null; \<open>localStorage\<close> loses exactly the token key
  and the optional keys configured with a non-empty name; nothing is sent; and a second
  \<open>logout\<close> changes nothing.
\<close>

theorem logout_clears:
  "\<not> isAuthenticated (logout config w)
   \<and> token (logout config w) = None
   \<and> refreshToken (logout config w) = None
   \<and> user (logout config w) = None
   \<and> localStorage (logout config w) (tokenKey (storage config)) = None
   \<and> (refreshTokenKey (storage config) = Some rk \<and> rk \<noteq> [] \<longrightarrow>
        localStorage (logout config w) rk = None)
   \<and> (userKey (storage config) = Some uk \<and> uk \<noteq> [] \<longrightarrow>
        localStorage (logout config w) uk = None)
   \<and> localStorage (logout config w) = localStorage w |` (- configured_keys config)
   \<and> loading (logout config w) = loading w
   \<and> requests (logout config w) = requests w
   \<and> logout config (logout config w) = logout config w"
  by (simp add: logout_state) (simp add: configured_keys_def)

theorem logout_clears_witness:
  "refreshTokenKey (storage defaultAuthConfig) = Some ''refreshToken''
   \<and> userKey (storage defaultAuthConfig) = Some ''user''
   \<and> localStorage (signed_in (Some ''r1'')) ''authToken'' = Some ''abc''
   \<and> localStorage (signed_in (Some ''r1'')) ''refreshToken'' = Some ''r1''
   \<and> \<not> isAuthenticated (logout defaultAuthConfig (signed_in (Some ''r1'')))
   \<and> token (logout defaultAuthConfig (signed_in (Some ''r1''))) = None
   \<and> localStorage (logout defaultAuthConfig (signed_in (Some ''r1''))) ''authToken'' = None
   \<and> localStorage (logout defaultAuthConfig (signed_in (Some ''r1''))) ''refreshToken'' = None
   \<and> localStorage (logout defaultAuthConfig (signed_in (Some ''r1''))) ''user'' = None
   \<and> logout defaultAuthConfig (logout defaultAuthConfig (signed_in (Some ''r1'')))
       = logout defaultAuthConfig (signed_in (Some ''r1''))"
proof -
  have k1: "refreshTokenKey (storage defaultAuthConfig) = Some ''refreshToken''"
    and k2: "userKey (storage defaultAuthConfig) = Some ''user''"
    by (simp_all add: default_keys)
  have st: "localStorage (signed_in (Some ''r1'')) ''authToken'' = Some ''abc''"
    "localStorage (signed_in (Some ''r1'')) ''refreshToken'' = Some ''r1''"
    by (simp_all add: signed_in_state)
  have n: "''refreshToken'' \<noteq> []" "''user'' \<noteq> []" by simp_all
  note c = logout_clears [of defaultAuthConfig "signed_in (Some ''r1'')" "''refreshToken''"
      "''user''", unfolded default_keys(1)]
  show ?thesis using k1 k2 st n c by blast
qed

subsection \<open>C9: the effective configuration\<close>

text \<open>
  C9, as the specification states it: an option that the custom configuration does not
  give takes its default, nested options included. The merge is by top-level property:
  a custom \<open>endpoints\<close> record without \<open>refresh\<close> replaces the default record, and the
  effective configuration has no refresh endpoint.
\<close>

theorem merge_config_nested_counterexample:
  "refresh (endpoints (merge_config (Some
      \<lparr>endpoints_opt = Some \<lparr>verify = ''/api/user/profile'', refresh = None\<rparr>,
       storage_opt = None, autoVerify_opt = Some False\<rparr>))) = None
   \<and> refresh (endpoints defaultAuthConfig) = Some ''/auth/refresh''"
  by (simp add: merge_config_def defaultAuthConfig_def)

text \<open>
  C9 (amended): without a custom configuration the effective configuration is the
  default one. With one, each of the three top-level options \<open>endpoints\<close>, \<open>storage\<close>
  and \<open>autoVerify\<close> that it does not give takes its default, and each one that it gives
  is taken as given, whole.
\<close>

theorem merge_config_top_level:
  "merge_config None = defaultAuthConfig
   \<and> (endpoints_opt c = None \<longrightarrow> endpoints (merge_config (Some c)) = endpoints defaultAuthConfig)
   \<and> (endpoints_opt c = Some e \<longrightarrow> endpoints (merge_config (Some c)) = e)
   \<and> (storage_opt c = None \<longrightarrow> storage (merge_config (Some c)) = storage defaultAuthConfig)
   \<and> (storage_opt c = Some s \<longrightarrow> storage (merge_config (Some c)) = s)
   \<and> (autoVerify_opt c = None \<longrightarrow> autoVerify (merge_config (Some c)) = autoVerify defaultAuthConfig)
   \<and> (autoVerify_opt c = Some b \<longrightarrow> autoVerify (merge_config (Some c)) = b)"
  by (simp add: merge_config_def)

theorem merge_config_top_level_witness:
  "endpoints (merge_config (Some
      \<lparr>endpoints_opt = Some \<lparr>verify = ''/api/user/profile'', refresh = None\<rparr>,
       storage_opt = None, autoVerify_opt = Some False\<rparr>))
     = \<lparr>verify = ''/api/user/profile'', refresh = None\<rparr>
   \<and> storage (merge_config (Some
      \<lparr>endpoints_opt = Some \<lparr>verify = ''/api/user/profile'', refresh = None\<rparr>,
       storage_opt = None, autoVerify_opt = Some False\<rparr>)) = storage defaultAuthConfig
   \<and> autoVerify (merge_config (Some
      \<lparr>endpoints_opt = Some \<lparr>verify = ''/api/user/profile'', refresh = None\<rparr>,
       storage_opt = None, autoVerify_opt = Some False\<rparr>)) = False
   \<and> endpoints (merge_config (Some
      \<lparr>endpoints_opt = None,
       storage_opt = Some \<lparr>tokenKey = ''jwt_token'', refreshTokenKey = None,
                             userKey = Some ''user_data''\<rparr>,
       autoVerify_opt = None\<rparr>)) = endpoints defaultAuthConfig
   \<and> storage (merge_config (Some
      \<lparr>endpoints_opt = None,
       storage_opt = Some \<lparr>tokenKey = ''jwt_token'', refreshTokenKey = None,
                             userKey = Some ''user_data''\<rparr>,
       autoVerify_opt = None\<rparr>))
     = \<lparr>tokenKey = ''jwt_token'', refreshTokenKey = None, userKey = Some ''user_data''\<rparr>
   \<and> autoVerify (merge_config (Some
      \<lparr>endpoints_opt = None,
       storage_opt = Some \<lparr>tokenKey = ''jwt_token'', refreshTokenKey = None,
                             userKey = Some ''user_data''\<rparr>,
       autoVerify_opt = None\<rparr>)) = autoVerify defaultAuthConfig"
  using merge_config_top_level
    [of "\<lparr>endpoints_opt = Some \<lparr>verify = ''/api/user/profile'', refresh = None\<rparr>,
          storage_opt = None, autoVerify_opt = Some False\<rparr>"
        "\<lparr>verify = ''/api/user/profile'', refresh = None\<rparr>" _ False]
    merge_config_top_level
    [of "\<lparr>endpoints_opt = None,
          storage_opt = Some \<lparr>tokenKey = ''jwt_token'', refreshTokenKey = None,
                                userKey = Some ''user_data''\<rparr>,
          autoVerify_opt = None\<rparr>"
        _ "\<lparr>tokenKey = ''jwt_token'', refreshTokenKey = None, userKey = Some ''user_data''\<rparr>"]
  by simp

subsection \<open>C10: the route guard\<close>

text \<open>
  C10: what \<open>ProtectedRoute\<close> renders depends only on \<open>loading\<close>, its own \<open>isChecking\<close>,
  the token and \<open>isAuthenticated\<close>. While \<open>loading\<close> or \<open>isChecking\<close> is true it renders
  the spinner. Once both are false it renders \<open><Navigate to="/" replace />\<close> exactly
  when the token is absent (\<open>!token\<close>: null or empty) or \<open>isAuthenticated\<close> is false,
  and the outlet of the protected routes exactly when there is a token and
  \<open>isAuthenticated\<close> is true.
\<close>

theorem ProtectedRoute_decision:
  "(loading r \<or> isChecking \<longrightarrow> ProtectedRoute r isChecking = Spinner)
   \<and> (\<not> loading r \<and> \<not> isChecking \<longrightarrow>
        (ProtectedRoute r isChecking = Navigate ''/'' True
           \<longleftrightarrow> \<not> truthy (token r) \<or> \<not> isAuthenticated r)
        \<and> (ProtectedRoute r isChecking = Outlet \<longleftrightarrow> truthy (token r) \<and> isAuthenticated r)
        \<and> ProtectedRoute r isChecking \<noteq> Spinner)
   \<and> ProtectedRoute (r\<lparr>refreshToken := x, user := y\<rparr>) isChecking = ProtectedRoute r isChecking"
  by (simp add: ProtectedRoute_def)

theorem ProtectedRoute_decision_witness:
  "ProtectedRoute ((current_render (signed_in None))\<lparr>loading := True\<rparr>) False = Spinner
   \<and> ProtectedRoute (current_render (signed_in None)) True = Spinner
   \<and> ProtectedRoute ((current_render (signed_in None))\<lparr>token := None\<rparr>) False
       = Navigate ''/'' True
   \<and> ProtectedRoute ((current_render (signed_in None))\<lparr>isAuthenticated := False\<rparr>) False
       = Navigate ''/'' True
   \<and> ProtectedRoute (current_render (signed_in None)) False = Outlet"
  using ProtectedRoute_decision [of "(current_render (signed_in None))\<lparr>loading := True\<rparr>" False]
    ProtectedRoute_decision [of "current_render (signed_in None)" True]
    ProtectedRoute_decision [of "(current_render (signed_in None))\<lparr>token := None\<rparr>" False]
    ProtectedRoute_decision [of "(current_render (signed_in None))\<lparr>isAuthenticated := False\<rparr>"
      False]
    ProtectedRoute_decision [of "current_render (signed_in None)" False]
  by (simp add: signed_in_state)

end
